theory Spec2Isabelle
  imports Complex_Main "HOL-Library.Sublist"
begin

section \<open>String operations of the Python runtime used by the scraper\<close>

text \<open>
  Strings are lists of characters. The scraper uses three methods of \<^verbatim>\<open>str\<close>:
  \<^verbatim>\<open>split(sep)\<close>, \<^verbatim>\<open>rstrip(chars)\<close> and \<^verbatim>\<open>title()\<close>.

  \<^verbatim>\<open>s.split(sep)\<close> scans \<^verbatim>\<open>s\<close> from the left; wherever the text at the
  current position starts with \<^verbatim>\<open>sep\<close> the piece collected so far is closed and the scan
  resumes behind the separator, so occurrences are taken greedily and never overlap.
  Python raises \<^verbatim>\<open>ValueError\<close> for an empty separator; the scraper only splits at the
  constant \<^verbatim>\<open>'/in/'\<close>, and the function below treats an empty separator as one that is
  never found.
\<close>

function split_scan :: "string \<Rightarrow> string \<Rightarrow> string \<Rightarrow> string list" where
  "split_scan sep cur [] = [cur]"
| "split_scan sep cur (c # cs) =
     (if sep \<noteq> [] \<and> prefix sep (c # cs)
      then cur # split_scan sep [] (drop (length sep) (c # cs))
      else split_scan sep (cur @ [c]) cs)"
  by pat_completeness auto
termination
  by (relation "measure (\<lambda>(sep, cur, rest). length rest)") auto

definition py_split :: "string \<Rightarrow> string \<Rightarrow> string list" where
  "py_split sep s = split_scan sep [] s"

text \<open>\<^verbatim>\<open>s.rstrip(chars)\<close>: drop every trailing character that is one of \<^verbatim>\<open>chars\<close>.\<close>

definition py_rstrip :: "string \<Rightarrow> string \<Rightarrow> string" where
  "py_rstrip chars s = rev (dropWhile (\<lambda>c. c \<in> set chars) (rev s))"

text \<open>
  \<^verbatim>\<open>s.title()\<close>: a cased character that follows an uncased one is put in upper case,
  a cased character that follows a cased one in lower case. The model covers the ASCII
  letters; every other character is uncased and stays as it is.
\<close>

definition is_ascii_lower :: "char \<Rightarrow> bool" where
  "is_ascii_lower c = (97 \<le> (of_char c :: nat) \<and> (of_char c :: nat) \<le> 122)"

definition is_ascii_upper :: "char \<Rightarrow> bool" where
  "is_ascii_upper c = (65 \<le> (of_char c :: nat) \<and> (of_char c :: nat) \<le> 90)"

definition ascii_to_upper :: "char \<Rightarrow> char" where
  "ascii_to_upper c = (if is_ascii_lower c then char_of ((of_char c :: nat) - 32) else c)"

definition ascii_to_lower :: "char \<Rightarrow> char" where
  "ascii_to_lower c = (if is_ascii_upper c then char_of ((of_char c :: nat) + 32) else c)"

fun title_scan :: "bool \<Rightarrow> string \<Rightarrow> string" where
  "title_scan previous_is_cased [] = []"
| "title_scan previous_is_cased (c # cs) =
     (if is_ascii_lower c then
        (if previous_is_cased then c else ascii_to_upper c) # title_scan True cs
      else if is_ascii_upper c then
        (if previous_is_cased then ascii_to_lower c else c) # title_scan True cs
      else c # title_scan False cs)"

definition py_title :: "string \<Rightarrow> string" where
  "py_title s = title_scan False s"

section \<open>The derived key of an identifier\<close>

text \<open>
  Line 129 of \<^verbatim>\<open>linkedin_scraper.py\<close>:
  \<^verbatim>\<open>username = profile_url.split('/in/')[-1].rstrip('/')\<close>.
  The list returned by \<^verbatim>\<open>split\<close> is never empty, so \<^verbatim>\<open>[-1]\<close> is its last element.
\<close>

definition marker :: string where
  "marker = ''/in/''"

definition username_of :: "string \<Rightarrow> string" where
  "username_of profile_url = py_rstrip ''/'' (last (py_split marker profile_url))"




section \<open>Records, exceptions and the environment\<close>

text \<open>
  The dictionary built in \<^verbatim>\<open>simulate_profile_data\<close> (lines 132 to 145) always has the
  same twelve keys in the same order; it is a record with one field per key.
\<close>

record profile =
  profile_url :: string
  username :: string
  name :: string
  title :: string
  company :: string
  location :: string
  about :: string
  skills :: string
  connections :: int
  endorsements :: int
  scraped_at :: string
  data_type :: string

text \<open>
  The calls of the try block into the runtime are \<^verbatim>\<open>random.uniform\<close>,
  \<^verbatim>\<open>time.sleep\<close>, \<^verbatim>\<open>random.randint\<close> (twice) and \<^verbatim>\<open>datetime.now\<close>. What they
  return is decided outside the program: one \<open>draws\<close> value per call of
  \<^verbatim>\<open>simulate_profile_data\<close> holds the random bits and the clock reading, and \<open>fault\<close>
  names the runtime call that raises in this synthesis, if one does (as when a test
  replaces it by a raising stub). Besides that, \<^verbatim>\<open>time.sleep\<close> itself raises
  \<^verbatim>\<open>ValueError\<close> for a negative duration.

  The calls of \<^verbatim>\<open>self.logger\<close> are writes to the log that do not raise: the handlers
  installed by \<^verbatim>\<open>__init__\<close> report their own errors through
  \<^verbatim>\<open>Handler.handleError\<close> and return normally.
\<close>

datatype call_site = random_uniform | time_sleep | random_randint | datetime_now

datatype py_exception =
    ValueError | OSError | KeyError | ZeroDivisionError | Raised call_site

record draws =
  fault :: "call_site option"
  uniform_bits :: nat
  connections_bits :: nat
  endorsements_bits :: nat
  now_isoformat :: string

text \<open>
  \<^verbatim>\<open>random.random()\<close> is 53 random bits over \<open>2^53\<close>, a value in \<open>[0, 1)\<close>;
  \<^verbatim>\<open>random.uniform(a, b)\<close> is \<^verbatim>\<open>a + (b - a) * random()\<close>;
  \<^verbatim>\<open>random.randint(a, b)\<close> is an integer of \<open>[a, b]\<close>. Delays are rationals: the
  rounding of the floating-point product is not modelled.
\<close>

definition random_float :: "nat \<Rightarrow> rat" where
  "random_float bits = of_nat (bits mod 9007199254740992) / 9007199254740992"

definition uniform :: "rat \<Rightarrow> rat \<Rightarrow> nat \<Rightarrow> rat" where
  "uniform a b bits = a + (b - a) * random_float bits"

definition randint :: "int \<Rightarrow> int \<Rightarrow> nat \<Rightarrow> int" where
  "randint a b bits = a + int (bits mod nat (b - a + 1))"

datatype levelname = INFO | WARNING | ERROR

datatype message =
    Initialized
  | Rate_limiting rat
  | Processing string
  | Successfully_processed string
  | Error_processing string py_exception
  | Starting_to_scrape nat
  | Scraping_complete nat
  | No_profiles_to_save
  | Profiles_saved_to string
  | Error_saving_to_CSV py_exception
  | Error_saving_to_JSON py_exception

text \<open>
  An export file holds either the CSV table (header and rows, a cell being the value
  that \<^verbatim>\<open>csv\<close> renders with \<^verbatim>\<open>str\<close>), or the JSON array of the records, or, after
  a write that failed behind a successful \<^verbatim>\<open>open(..., 'w')\<close>, some truncated output.
\<close>

datatype cell = Text string | Number int

datatype export_file = CSV "string list" "cell list list" | JSON "profile list" | Truncated

datatype io_outcome = Io_ok | Open_fails | Write_fails

text \<open>
  The state: the attributes of the \<^verbatim>\<open>LinkedInScraper\<close> object (\<open>output_csv\<close>,
  \<open>min_delay\<close>, \<open>max_delay\<close>, \<open>profiles\<close>), the log written through \<open>self.logger\<close>,
  the export files on disk, and the number of syntheses started so far, which is the
  position in the stream of \<open>draws\<close>.
\<close>

record scraper =
  output_csv :: string
  min_delay :: rat
  max_delay :: rat
  profiles :: "profile list"
  logger :: "(levelname \<times> message) list"
  files :: "string \<rightharpoonup> export_file"
  calls :: nat

definition logger_info :: "message \<Rightarrow> scraper \<Rightarrow> scraper" where
  "logger_info m s = s\<lparr>logger := logger s @ [(INFO, m)]\<rparr>"

definition logger_warning :: "message \<Rightarrow> scraper \<Rightarrow> scraper" where
  "logger_warning m s = s\<lparr>logger := logger s @ [(WARNING, m)]\<rparr>"

definition logger_error :: "message \<Rightarrow> scraper \<Rightarrow> scraper" where
  "logger_error m s = s\<lparr>logger := logger s @ [(ERROR, m)]\<rparr>"

text \<open>\<^verbatim>\<open>__init__\<close> (lines 51 to 75), run on a disk holding the files \<open>disk\<close>.\<close>

definition LinkedInScraper :: "string \<Rightarrow> rat \<Rightarrow> rat \<Rightarrow> (string \<rightharpoonup> export_file) \<Rightarrow> scraper" where
  "LinkedInScraper csv_path lo hi disk =
     logger_info Initialized
       \<lparr>output_csv = csv_path, min_delay = lo, max_delay = hi, profiles = [],
        logger = [], files = disk, calls = 0\<rparr>"

section \<open>Record synthesis\<close>

text \<open>
  The body of the try block of \<^verbatim>\<open>simulate_profile_data\<close> (lines 121 to 149). It
  yields the exception that leaves the block or the record that the block returns,
  with the state as it is at that point.
\<close>

definition simulate_try :: "draws \<Rightarrow> string \<Rightarrow> scraper \<Rightarrow> (py_exception + profile) \<times> scraper" where
  "simulate_try d url s =
     (if fault d = Some random_uniform then (Inl (Raised random_uniform), s)
      else
        let delay = uniform (min_delay s) (max_delay s) (uniform_bits d);
            s1 = logger_info (Rate_limiting delay) s
        in if fault d = Some time_sleep then (Inl (Raised time_sleep), s1)
           else if delay < 0 then (Inl ValueError, s1)
           else
             let s2 = logger_info (Processing url) s1;
                 user = username_of url
             in if fault d = Some random_randint then (Inl (Raised random_randint), s2)
                else if fault d = Some datetime_now then (Inl (Raised datetime_now), s2)
                else
                  let profile_data =
                        \<lparr>profile_url = url,
                         username = user,
                         name = ''Professional '' @ py_title user,
                         title = ''Job Title Example'',
                         company = ''Company Example'',
                         location = ''City, Country'',
                         about = ''Professional summary example'',
                         skills = ''Python, Web Scraping, Data Analysis'',
                         connections = randint 100 5000 (connections_bits d),
                         endorsements = randint 0 500 (endorsements_bits d),
                         scraped_at = now_isoformat d,
                         data_type = ''SIMULATED - FOR DEMONSTRATION ONLY''\<rparr>;
                      s3 = s2\<lparr>profiles := profiles s2 @ [profile_data]\<rparr>;
                      s4 = logger_info (Successfully_processed user) s3
                  in (Inr profile_data, s4))"

text \<open>
  \<^verbatim>\<open>simulate_profile_data\<close>: the try block and its handler (lines 151 to 153). The
  call takes the next \<open>draws\<close> of the environment \<open>env\<close>.
\<close>

definition simulate_profile_data ::
  "(nat \<Rightarrow> draws) \<Rightarrow> string \<Rightarrow> scraper \<Rightarrow> profile option \<times> scraper" where
  "simulate_profile_data env url s =
     (case simulate_try (env (calls s)) url (s\<lparr>calls := Suc (calls s)\<rparr>) of
        (Inl e, s') \<Rightarrow> (None, logger_error (Error_processing url e) s')
      | (Inr profile_data, s') \<Rightarrow> (Some profile_data, s'))"

text \<open>The loop of \<^verbatim>\<open>scrape_profiles\<close> (lines 167 and 168) and the method itself.\<close>

fun scrape_loop :: "(nat \<Rightarrow> draws) \<Rightarrow> string list \<Rightarrow> scraper \<Rightarrow> scraper" where
  "scrape_loop env [] s = s"
| "scrape_loop env (url # urls) s = scrape_loop env urls (snd (simulate_profile_data env url s))"

definition scrape_profiles ::
  "(nat \<Rightarrow> draws) \<Rightarrow> string list \<Rightarrow> scraper \<Rightarrow> profile list \<times> scraper" where
  "scrape_profiles env profile_urls s =
     (let s1 = logger_info (Starting_to_scrape (length profile_urls)) s;
          s2 = scrape_loop env profile_urls s1;
          s3 = logger_info (Scraping_complete (length (profiles s2))) s2
      in (profiles s3, s3))"

text \<open>
  A synthesis fails when an exception leaves the try block: a runtime call raises, or
  the delay drawn for \<^verbatim>\<open>time.sleep\<close> is negative.
\<close>

definition synthesis_fails :: "draws \<Rightarrow> scraper \<Rightarrow> bool" where
  "synthesis_fails d s =
     (fault d \<noteq> None \<or> uniform (min_delay s) (max_delay s) (uniform_bits d) < 0)"

section \<open>Export\<close>

text \<open>
  \<^verbatim>\<open>fieldnames = list(self.profiles[0].keys())\<close>: the keys of a record in insertion
  order, and the row that \<^verbatim>\<open>csv.DictWriter\<close> writes for a record.
\<close>

definition fieldnames :: "string list" where
  "fieldnames =
     [''profile_url'', ''username'', ''name'', ''title'', ''company'', ''location'',
      ''about'', ''skills'', ''connections'', ''endorsements'', ''scraped_at'', ''data_type'']"

definition row_of :: "profile \<Rightarrow> cell list" where
  "row_of p =
     [Text (profile_url p), Text (username p), Text (name p), Text (title p), Text (company p),
      Text (location p), Text (about p), Text (skills p), Number (connections p),
      Number (endorsements p), Text (scraped_at p), Text (data_type p)]"

text \<open>
  The try block of \<^verbatim>\<open>save_to_csv\<close> (lines 185 to 193). \<open>io\<close> is what the disk does
  with this export: \<^verbatim>\<open>open\<close> raises, or a write behind it raises and leaves a
  truncated file, or all of it succeeds.
\<close>

definition csv_try :: "io_outcome \<Rightarrow> scraper \<Rightarrow> (py_exception + string) \<times> scraper" where
  "csv_try io s =
     (case io of
        Open_fails \<Rightarrow> (Inl OSError, s)
      | Write_fails \<Rightarrow> (Inl OSError, s\<lparr>files := (files s)(output_csv s \<mapsto> Truncated)\<rparr>)
      | Io_ok \<Rightarrow>
          let s1 = s\<lparr>files := (files s)(output_csv s \<mapsto> CSV fieldnames (map row_of (profiles s)))\<rparr>;
              s2 = logger_info (Profiles_saved_to (output_csv s1)) s1
          in (Inr (output_csv s2), s2))"

definition save_to_csv :: "io_outcome \<Rightarrow> scraper \<Rightarrow> string option \<times> scraper" where
  "save_to_csv io s =
     (if profiles s = [] then (None, logger_warning No_profiles_to_save s)
      else
        case csv_try io s of
          (Inl e, s') \<Rightarrow> (None, logger_error (Error_saving_to_CSV e) s')
        | (Inr path, s') \<Rightarrow> (Some path, s'))"

text \<open>The try block of \<^verbatim>\<open>save_to_json\<close> (lines 214 to 218) and the method.\<close>

definition json_try :: "io_outcome \<Rightarrow> string \<Rightarrow> scraper \<Rightarrow> (py_exception + string) \<times> scraper" where
  "json_try io filename s =
     (case io of
        Open_fails \<Rightarrow> (Inl OSError, s)
      | Write_fails \<Rightarrow> (Inl OSError, s\<lparr>files := (files s)(filename \<mapsto> Truncated)\<rparr>)
      | Io_ok \<Rightarrow>
          let s1 = s\<lparr>files := (files s)(filename \<mapsto> JSON (profiles s))\<rparr>;
              s2 = logger_info (Profiles_saved_to filename) s1
          in (Inr filename, s2))"

definition save_to_json :: "io_outcome \<Rightarrow> string \<Rightarrow> scraper \<Rightarrow> string option \<times> scraper" where
  "save_to_json io filename s =
     (if profiles s = [] then (None, logger_warning No_profiles_to_save s)
      else
        case json_try io filename s of
          (Inl e, s') \<Rightarrow> (None, logger_error (Error_saving_to_JSON e) s')
        | (Inr path, s') \<Rightarrow> (Some path, s'))"

section \<open>Statistics\<close>

text \<open>
  The dictionary returned by \<^verbatim>\<open>get_stats\<close> has the key \<^verbatim>\<open>total_profiles\<close> always and
  the other two keys only for a non-empty collection: an absent key is \<open>None\<close>.

  \<^verbatim>\<open>sum(...)\<close> adds the values from the left, starting at 0. \<^verbatim>\<open>a / b\<close> on integers
  raises \<^verbatim>\<open>ZeroDivisionError\<close> for \<open>b = 0\<close> and is otherwise the quotient, which Python
  delivers as the nearest double; the model keeps the exact rational. (Python raises
  \<^verbatim>\<open>OverflowError\<close> for a quotient beyond the range of a double; the records this
  program builds hold between 100 and 5000 connections.)
\<close>

record stats =
  total_profiles :: nat
  average_connections :: "rat option"
  total_skills_fields :: "nat option"

definition py_sum :: "int list \<Rightarrow> int" where
  "py_sum xs = foldl (+) 0 xs"

definition py_truediv :: "int \<Rightarrow> int \<Rightarrow> py_exception + rat" where
  "py_truediv a b = (if b = 0 then Inl ZeroDivisionError else Inr (of_int a / of_int b))"

definition get_stats :: "scraper \<Rightarrow> (py_exception + stats) \<times> scraper" where
  "get_stats s =
     (if profiles s = [] then
        (Inr \<lparr>total_profiles = 0, average_connections = None, total_skills_fields = None\<rparr>, s)
      else
        case py_truediv (py_sum (map connections (profiles s))) (int (length (profiles s))) of
          Inl e \<Rightarrow> (Inl e, s)
        | Inr average \<Rightarrow>
            (Inr \<lparr>total_profiles = length (profiles s),
                  average_connections = Some average,
                  total_skills_fields = Some (length [p \<leftarrow> profiles s. skills p \<noteq> []])\<rparr>, s))"

section \<open>The script\<close>

text \<open>
  The block under \<^verbatim>\<open>if __name__ == '__main__'\<close> (lines 236 to 280), with the list
  \<^verbatim>\<open>sample_profiles\<close> as a parameter (the script asks for it to be replaced by actual
  profiles). The result is the exit status of the process, the lines printed to
  standard output, and the final state. \<^verbatim>\<open>stats['average_connections']\<close> on line 275
  raises \<^verbatim>\<open>KeyError\<close> when the key is absent; an exception that nothing catches ends
  the process with a traceback and a failure status.
\<close>

datatype exit_status = Exit_success | Uncaught py_exception

datatype printed =
    Scraping_Statistics
  | Total_Profiles_Scraped nat
  | Average_Connections rat
  | Results_saved_to
  | CSV_path "string option"
  | JSON_path "string option"
  | Note_simulated_data
  | Note_terms_of_service

definition script ::
  "string list \<Rightarrow> (nat \<Rightarrow> draws) \<Rightarrow> io_outcome \<Rightarrow> io_outcome \<Rightarrow> (string \<rightharpoonup> export_file)
     \<Rightarrow> exit_status \<times> printed list \<times> scraper" where
  "script sample_profiles env io_csv io_json disk =
     (let s0 = LinkedInScraper ''profiles.csv'' 2 5 disk;
          (profiles_returned, s1) = scrape_profiles env sample_profiles s0;
          (csv_file, s2) = save_to_csv io_csv s1;
          (json_file, s3) = save_to_json io_json ''profiles.json'' s2
      in case get_stats s3 of
           (Inl e, s4) \<Rightarrow> (Uncaught e, [], s4)
         | (Inr st, s4) \<Rightarrow>
             let out = [Scraping_Statistics, Total_Profiles_Scraped (total_profiles st)]
             in case average_connections st of
                  None \<Rightarrow> (Uncaught KeyError, out, s4)
                | Some average \<Rightarrow>
                    (Exit_success,
                     out @ [Average_Connections average, Results_saved_to, CSV_path csv_file,
                            JSON_path json_file, Note_simulated_data, Note_terms_of_service],
                     s4))"

definition sample_profiles :: "string list" where
  "sample_profiles =
     [''linkedin.com/in/sample-profile-1'', ''linkedin.com/in/sample-profile-2'',
      ''linkedin.com/in/sample-profile-3'', ''linkedin.com/in/sample-profile-4'',
      ''linkedin.com/in/sample-profile-5'', ''linkedin.com/in/sample-profile-6'',
      ''linkedin.com/in/sample-profile-7'', ''linkedin.com/in/sample-profile-8'',
      ''linkedin.com/in/sample-profile-9'', ''linkedin.com/in/sample-profile-10'',
      ''linkedin.com/in/sample-profile-11'', ''linkedin.com/in/sample-profile-12'',
      ''linkedin.com/in/sample-profile-13'', ''linkedin.com/in/sample-profile-14'',
      ''linkedin.com/in/sample-profile-15'', ''linkedin.com/in/sample-profile-16'',
      ''linkedin.com/in/sample-profile-17'', ''linkedin.com/in/sample-profile-18'',
      ''linkedin.com/in/sample-profile-19'', ''linkedin.com/in/sample-profile-20'']"

definition main ::
  "(nat \<Rightarrow> draws) \<Rightarrow> io_outcome \<Rightarrow> io_outcome \<Rightarrow> (string \<rightharpoonup> export_file)
     \<Rightarrow> exit_status \<times> printed list \<times> scraper" where
  "main env io_csv io_json disk = script sample_profiles env io_csv io_json disk"

section \<open>Two environments\<close>

text \<open>
  An environment in which every runtime call returns, and one in which
  \<^verbatim>\<open>time.sleep\<close> raises in every synthesis.
\<close>

definition steady :: "nat \<Rightarrow> draws" where
  "steady k = \<lparr>fault = None, uniform_bits = k, connections_bits = 7 * k,
      endorsements_bits = 3 * k, now_isoformat = ''2024-01-01T00:00:00''\<rparr>"

definition broken :: "nat \<Rightarrow> draws" where
  "broken k = \<lparr>fault = Some time_sleep, uniform_bits = k, connections_bits = 7 * k,
      endorsements_bits = 3 * k, now_isoformat = ''2024-01-01T00:00:00''\<rparr>"

text \<open>A collection of two records, with 100 and 300 connections.\<close>

definition two_records :: "profile list" where
  "two_records =
     [\<lparr>profile_url = ''a'', username = ''a'', name = ''Professional A'', title = ''t'',
       company = ''c'', location = ''l'', about = ''s'', skills = ''Python'',
       connections = 100, endorsements = 1, scraped_at = ''2024-01-01T00:00:00'', data_type = ''d''\<rparr>,
      \<lparr>profile_url = ''b'', username = ''b'', name = ''Professional B'', title = ''t'',
       company = ''c'', location = ''l'', about = ''s'', skills = '''',
       connections = 300, endorsements = 2, scraped_at = ''2024-01-01T00:00:01'', data_type = ''d''\<rparr>]"

section \<open>Properties of the string operations\<close>












section \<open>Properties of one synthesis and of the loop\<close>

lemma simulate_fields:
  "min_delay (snd (simulate_profile_data env url s)) = min_delay s"
  "max_delay (snd (simulate_profile_data env url s)) = max_delay s"
  "output_csv (snd (simulate_profile_data env url s)) = output_csv s"
  "files (snd (simulate_profile_data env url s)) = files s"
  "calls (snd (simulate_profile_data env url s)) = Suc (calls s)"
  by (simp_all add: simulate_profile_data_def simulate_try_def logger_info_def logger_error_def Let_def)

lemma simulate_fails:
  "synthesis_fails (env (calls s)) s \<Longrightarrow>
     fst (simulate_profile_data env url s) = None \<and>
     profiles (snd (simulate_profile_data env url s)) = profiles s"
proof (cases "fault (env (calls s))")
  case None
  assume "synthesis_fails (env (calls s)) s"
  with None show ?thesis
    by (simp add: synthesis_fails_def simulate_profile_data_def simulate_try_def
        logger_info_def logger_error_def Let_def)
next
  case (Some site)
  then show ?thesis
    by (cases site)
      (simp_all add: simulate_profile_data_def simulate_try_def
        logger_info_def logger_error_def Let_def)
qed

lemma simulate_succeeds:
  "\<not> synthesis_fails (env (calls s)) s \<Longrightarrow>
     \<exists>p. fst (simulate_profile_data env url s) = Some p \<and> profile_url p = url \<and>
         profiles (snd (simulate_profile_data env url s)) = profiles s @ [p]"
  by (simp add: synthesis_fails_def simulate_profile_data_def simulate_try_def
      logger_info_def logger_error_def Let_def)

lemma synthesis_fails_cong:
  "min_delay s' = min_delay s \<Longrightarrow> max_delay s' = max_delay s \<Longrightarrow>
     synthesis_fails d s' = synthesis_fails d s"
  by (simp add: synthesis_fails_def)

lemma scrape_loop_fields:
  "min_delay (scrape_loop env urls s) = min_delay s \<and>
   max_delay (scrape_loop env urls s) = max_delay s \<and>
   output_csv (scrape_loop env urls s) = output_csv s \<and>
   files (scrape_loop env urls s) = files s \<and>
   calls (scrape_loop env urls s) = calls s + length urls"
  by (induction urls arbitrary: s) (simp_all add: simulate_fields)

text \<open>
  The records appended by the loop, for any outcome of the syntheses: one per
  identifier whose synthesis does not fail, in the order of the identifiers.
\<close>

lemma scrape_loop_appends:
  "\<exists>new. profiles (scrape_loop env urls s) = profiles s @ new \<and>
     map profile_url new =
       map fst (filter (\<lambda>(url, k). \<not> synthesis_fails (env k) s)
                  (zip urls [calls s ..< calls s + length urls]))"
proof (induction urls arbitrary: s)
  case Nil
  show ?case by simp
next
  case (Cons url urls)
  let ?s' = "snd (simulate_profile_data env url s)"
  have sf: "\<And>d. synthesis_fails d ?s' = synthesis_fails d s"
    by (rule synthesis_fails_cong) (simp_all add: simulate_fields)
  have up: "[calls s ..< calls s + length (url # urls)] =
      calls s # [calls ?s' ..< calls ?s' + length urls]"
    by (simp add: simulate_fields upt_rec)
  from Cons.IH[of ?s'] obtain new where
    new: "profiles (scrape_loop env urls ?s') = profiles ?s' @ new"
    and urls: "map profile_url new =
       map fst (filter (\<lambda>(url, k). \<not> synthesis_fails (env k) s)
                  (zip urls [calls ?s' ..< calls ?s' + length urls]))"
    unfolding sf by blast
  show ?case
  proof (cases "synthesis_fails (env (calls s)) s")
    case True
    then have "profiles ?s' = profiles s" by (simp add: simulate_fails)
    with new urls True show ?thesis unfolding up by simp
  next
    case False
    then obtain p where "profile_url p = url" and "profiles ?s' = profiles s @ [p]"
      using simulate_succeeds[of env s url] by blast
    with new urls False have
      "profiles (scrape_loop env (url # urls) s) = profiles s @ (p # new) \<and>
       map profile_url (p # new) =
         map fst (filter (\<lambda>(url, k). \<not> synthesis_fails (env k) s)
                  (zip (url # urls) [calls s ..< calls s + length (url # urls)]))"
      unfolding up by simp
    then show ?thesis by blast
  qed
qed

lemma filter_zip_all:
  "length ks = length urls \<Longrightarrow> \<forall>k \<in> set ks. P k \<Longrightarrow>
     map fst (filter (\<lambda>(url, k). P k) (zip urls ks)) = urls"
  by (induction urls ks rule: list_induct2') auto

lemma filter_zip_none:
  "\<forall>k \<in> set ks. \<not> P k \<Longrightarrow> filter (\<lambda>(url, k). P k) (zip urls ks) = []"
  by (auto simp: filter_empty_conv dest: set_zip_rightD)

lemma map_fst_filter_zip_subseq:
  "subseq (map fst (filter Q (zip urls ks))) urls"
proof -
  have "subseq (map fst (filter Q (zip urls ks))) (map fst (zip urls ks))"
    by (intro subseq_map subseq_filter_left)
  moreover have "subseq (map fst (zip urls ks)) urls"
    by (induction urls ks rule: list_induct2') auto
  ultimately show ?thesis by (rule subseq_order.trans)
qed

lemma scrape_profiles_result:
  "fst (scrape_profiles env urls s) = profiles (scrape_loop env urls (logger_info m0 s)) \<and>
   profiles (snd (scrape_profiles env urls s)) = profiles (scrape_loop env urls (logger_info m0 s))"
  if "m0 = Starting_to_scrape (length urls)"
  using that by (simp add: scrape_profiles_def Let_def logger_info_def)

text \<open>What \<^verbatim>\<open>scrape_profiles\<close> returns, for any outcome of the syntheses.\<close>

lemma scrape_profiles_appends:
  "\<exists>new. fst (scrape_profiles env urls s) = profiles s @ new \<and>
     profiles (snd (scrape_profiles env urls s)) = profiles s @ new \<and>
     map profile_url new =
       map fst (filter (\<lambda>(url, k). \<not> synthesis_fails (env k) s)
                  (zip urls [calls s ..< calls s + length urls]))"
proof -
  let ?s1 = "logger_info (Starting_to_scrape (length urls)) s"
  have sf: "\<And>d. synthesis_fails d ?s1 = synthesis_fails d s"
    by (rule synthesis_fails_cong) (simp_all add: logger_info_def)
  have "profiles ?s1 = profiles s" and "calls ?s1 = calls s"
    by (simp_all add: logger_info_def)
  with scrape_loop_appends[of env urls ?s1] show ?thesis
    unfolding sf by (simp add: scrape_profiles_result[OF refl])
qed

section \<open>Delays\<close>

lemma random_float_range: "0 \<le> random_float bits \<and> random_float bits < 1"
  by (simp add: random_float_def)

lemma uniform_nonneg: "0 \<le> a \<Longrightarrow> 0 \<le> b \<Longrightarrow> 0 \<le> uniform a b bits"
proof -
  assume a: "0 \<le> a" and b: "0 \<le> b"
  let ?u = "random_float bits"
  have u: "0 \<le> ?u" "?u < 1" using random_float_range by simp_all
  have "uniform a b bits = a * (1 - ?u) + b * ?u" by (simp add: uniform_def algebra_simps)
  moreover have "0 \<le> a * (1 - ?u)" using a u by simp
  moreover have "0 \<le> b * ?u" using b u by simp
  ultimately show ?thesis by simp
qed

lemma steady_succeeds:
  "0 \<le> min_delay s \<Longrightarrow> 0 \<le> max_delay s \<Longrightarrow> \<not> synthesis_fails (steady k) s"
  by (simp add: synthesis_fails_def steady_def uniform_nonneg not_less)

section \<open>Statistics and the script\<close>



lemma scrape_profiles_fields:
  "min_delay (snd (scrape_profiles env urls s)) = min_delay s \<and>
   max_delay (snd (scrape_profiles env urls s)) = max_delay s \<and>
   output_csv (snd (scrape_profiles env urls s)) = output_csv s \<and>
   files (snd (scrape_profiles env urls s)) = files s \<and>
   calls (snd (scrape_profiles env urls s)) = calls s + length urls"
  using scrape_loop_fields[of env urls "logger_info (Starting_to_scrape (length urls)) s"]
  by (simp add: scrape_profiles_def Let_def logger_info_def)

lemma scrape_profiles_all_fail:
  assumes "\<forall>k. synthesis_fails (env k) s"
  shows "fst (scrape_profiles env urls s) = profiles s \<and>
         profiles (snd (scrape_profiles env urls s)) = profiles s"
proof -
  have "filter (\<lambda>(url, k). \<not> synthesis_fails (env k) s)
          (zip urls [calls s ..< calls s + length urls]) = []"
    using assms by (intro filter_zip_none) simp
  with scrape_profiles_appends[of env urls s] show ?thesis by auto
qed

lemma script_empty_collection:
  assumes "profiles (snd (scrape_profiles env urls (LinkedInScraper ''profiles.csv'' 2 5 disk))) = []"
  shows "fst (script urls env io_csv io_json disk) = Uncaught KeyError \<and>
         fst (snd (script urls env io_csv io_json disk)) =
           [Scraping_Statistics, Total_Profiles_Scraped 0]"
  using assms
  by (simp add: script_def split_beta Let_def save_to_csv_def save_to_json_def
      logger_warning_def get_stats_def)

lemma broken_fails: "synthesis_fails (broken k) s"
  by (simp add: synthesis_fails_def broken_def)

text \<open>With at least one record in the collection the script ends successfully.\<close>

lemma script_nonempty_collection:
  assumes "profiles (snd (scrape_profiles env urls (LinkedInScraper ''profiles.csv'' 2 5 disk))) \<noteq> []"
  shows "fst (script urls env io_csv io_json disk) = Exit_success"
proof -
  let ?s1 = "snd (scrape_profiles env urls (LinkedInScraper ''profiles.csv'' 2 5 disk))"
  have c: "profiles (snd (save_to_csv io_csv ?s1)) = profiles ?s1"
    by (cases io_csv) (simp_all add: save_to_csv_def csv_try_def logger_warning_def
        logger_error_def logger_info_def Let_def)
  have j: "\<And>t. profiles (snd (save_to_json io_json ''profiles.json'' t)) = profiles t"
    by (cases io_json) (simp_all add: save_to_json_def json_try_def logger_warning_def
        logger_error_def logger_info_def Let_def)
  from assms c j[of "snd (save_to_csv io_csv ?s1)"] show ?thesis
    by (simp add: script_def split_beta Let_def get_stats_def py_truediv_def)
qed

lemma save_keeps_profiles:
  "profiles (snd (save_to_csv io s)) = profiles s"
  "profiles (snd (save_to_json io filename s)) = profiles s"
  by (cases io; simp add: save_to_csv_def save_to_json_def csv_try_def json_try_def
      logger_warning_def logger_error_def logger_info_def Let_def)+

lemma get_stats_state: "snd (get_stats s) = s"
  by (simp add: get_stats_def py_truediv_def)

lemma steady_one_record:
  "profiles (snd (scrape_profiles steady [''plain-id''] (LinkedInScraper ''profiles.csv'' 2 5 Map.empty))) \<noteq> []"
  by (simp add: scrape_profiles_def simulate_profile_data_def simulate_try_def LinkedInScraper_def
      logger_info_def logger_error_def steady_def uniform_def random_float_def Let_def)

section \<open>The claims\<close>

text \<open>
  C1. Started on an empty collection, with no synthesis failing during the run,
  \<^verbatim>\<open>scrape_profiles\<close> returns exactly one record per identifier, in the order of the
  identifiers, and the \<open>profile_url\<close> of the i-th record is the i-th identifier. The
  syntheses of the run are the calls numbered \<open>calls s\<close> up to
  \<open>calls s + length urls - 1\<close>. (The statement also covers the empty sequence.)
\<close>

theorem scrape_profiles_in_order:
  assumes "profiles s = []"
    and "\<forall>i < length urls. \<not> synthesis_fails (env (calls s + i)) s"
  shows "length (fst (scrape_profiles env urls s)) = length urls \<and>
         map profile_url (fst (scrape_profiles env urls s)) = urls \<and>
         (\<forall>i < length urls. profile_url (fst (scrape_profiles env urls s) ! i) = urls ! i)"
proof -
  let ?ks = "[calls s ..< calls s + length urls]"
  have "\<forall>k \<in> set ?ks. \<not> synthesis_fails (env k) s"
  proof
    fix k assume "k \<in> set ?ks"
    then have "k - calls s < length urls" and "k = calls s + (k - calls s)" by auto
    with assms(2) show "\<not> synthesis_fails (env k) s" by metis
  qed
  then have all: "map fst (filter (\<lambda>(url, k). \<not> synthesis_fails (env k) s) (zip urls ?ks)) = urls"
    by (intro filter_zip_all) simp_all
  from scrape_profiles_appends[of env urls s] assms(1) all
  have m: "map profile_url (fst (scrape_profiles env urls s)) = urls" by auto
  then have l: "length (fst (scrape_profiles env urls s)) = length urls"
    by (metis length_map)
  have "\<forall>i < length urls. profile_url (fst (scrape_profiles env urls s) ! i) = urls ! i"
    using m l by (metis nth_map)
  with m l show ?thesis by simp
qed

theorem scrape_profiles_in_order_witness:
  "profiles (LinkedInScraper ''profiles.csv'' 2 5 Map.empty) = [] \<and>
   \<not> synthesis_fails (steady (calls (LinkedInScraper ''profiles.csv'' 2 5 Map.empty) + 0))
       (LinkedInScraper ''profiles.csv'' 2 5 Map.empty) \<and>
   \<not> synthesis_fails (steady (calls (LinkedInScraper ''profiles.csv'' 2 5 Map.empty) + 1))
       (LinkedInScraper ''profiles.csv'' 2 5 Map.empty) \<and>
   length (fst (scrape_profiles steady [''linkedin.com/in/sample-profile-1'', ''plain-id'']
       (LinkedInScraper ''profiles.csv'' 2 5 Map.empty))) = 2 \<and>
   map profile_url (fst (scrape_profiles steady [''linkedin.com/in/sample-profile-1'', ''plain-id'']
       (LinkedInScraper ''profiles.csv'' 2 5 Map.empty))) =
     [''linkedin.com/in/sample-profile-1'', ''plain-id'']"
proof -
  let ?s = "LinkedInScraper ''profiles.csv'' 2 5 Map.empty"
  let ?urls = "[''linkedin.com/in/sample-profile-1'', ''plain-id'']"
  have h1: "profiles ?s = []" by (simp add: LinkedInScraper_def logger_info_def)
  have h2: "\<forall>i < length ?urls. \<not> synthesis_fails (steady (calls ?s + i)) ?s"
    by (simp add: steady_succeeds LinkedInScraper_def logger_info_def)
  have h3: "\<not> synthesis_fails (steady (calls ?s + 0)) ?s \<and> \<not> synthesis_fails (steady (calls ?s + 1)) ?s"
    by (simp add: steady_succeeds LinkedInScraper_def logger_info_def)
  from scrape_profiles_in_order[OF h1 h2] h1 h3 show ?thesis by simp
qed




text \<open>
  C10. \<^verbatim>\<open>simulate_profile_data\<close> is atomic on the collection: a synthesis that fails
  returns \<open>None\<close> and leaves the collection as it was, a synthesis that succeeds
  returns a record and appends exactly that record; so whatever the call returns, the
  collection is unchanged for \<open>None\<close> and extended by the returned record otherwise.
\<close>

theorem simulate_profile_data_atomic:
  "(synthesis_fails (env (calls s)) s \<longrightarrow>
      fst (simulate_profile_data env url s) = None \<and>
      profiles (snd (simulate_profile_data env url s)) = profiles s) \<and>
   (\<not> synthesis_fails (env (calls s)) s \<longrightarrow>
      (\<exists>p. fst (simulate_profile_data env url s) = Some p \<and>
           profiles (snd (simulate_profile_data env url s)) = profiles s @ [p])) \<and>
   (case fst (simulate_profile_data env url s) of
      Some p \<Rightarrow> profiles (snd (simulate_profile_data env url s)) = profiles s @ [p]
    | None \<Rightarrow> profiles (snd (simulate_profile_data env url s)) = profiles s)"
proof (cases "synthesis_fails (env (calls s)) s")
  case True
  with simulate_fails[of env s url] show ?thesis by simp
next
  case False
  with simulate_succeeds[of env s url] show ?thesis by auto
qed

theorem simulate_profile_data_atomic_witness:
  "synthesis_fails (broken (calls (LinkedInScraper ''profiles.csv'' 2 5 Map.empty)))
     (LinkedInScraper ''profiles.csv'' 2 5 Map.empty) \<and>
   fst (simulate_profile_data broken ''plain-id'' (LinkedInScraper ''profiles.csv'' 2 5 Map.empty)) = None \<and>
   profiles (snd (simulate_profile_data broken ''plain-id'' (LinkedInScraper ''profiles.csv'' 2 5 Map.empty))) = [] \<and>
   \<not> synthesis_fails (steady (calls (LinkedInScraper ''profiles.csv'' 2 5 Map.empty)))
     (LinkedInScraper ''profiles.csv'' 2 5 Map.empty) \<and>
   (\<exists>p. fst (simulate_profile_data steady ''plain-id'' (LinkedInScraper ''profiles.csv'' 2 5 Map.empty)) = Some p \<and>
     profiles (snd (simulate_profile_data steady ''plain-id'' (LinkedInScraper ''profiles.csv'' 2 5 Map.empty))) = [p])"
proof -
  let ?s = "LinkedInScraper ''profiles.csv'' 2 5 Map.empty"
  have p: "profiles ?s = []" by (simp add: LinkedInScraper_def logger_info_def)
  have h1: "synthesis_fails (broken (calls ?s)) ?s"
    by (simp add: synthesis_fails_def broken_def)
  have h2: "\<not> synthesis_fails (steady (calls ?s)) ?s"
    by (simp add: steady_succeeds LinkedInScraper_def logger_info_def)
  from simulate_profile_data_atomic[of broken ?s "''plain-id''"] h1
  have r1: "fst (simulate_profile_data broken ''plain-id'' ?s) = None \<and>
      profiles (snd (simulate_profile_data broken ''plain-id'' ?s)) = profiles ?s" by blast
  from simulate_profile_data_atomic[of steady ?s "''plain-id''"] h2
  have r2: "\<exists>p. fst (simulate_profile_data steady ''plain-id'' ?s) = Some p \<and>
      profiles (snd (simulate_profile_data steady ''plain-id'' ?s)) = profiles ?s @ [p]" by blast
  from h1 h2 r1 r2 p show ?thesis by simp
qed

text \<open>
  C3, evaluated where it fails. A run of the script in which every synthesis fails (here
  \<^verbatim>\<open>time.sleep\<close> raises in each of the twenty), or whose list of identifiers is
  empty, ends with an empty collection: \<^verbatim>\<open>get_stats\<close> returns only the key
  \<^verbatim>\<open>total_profiles\<close>, the script prints the heading and the total, and line 275 then
  raises \<^verbatim>\<open>KeyError\<close>, which nothing catches. The average and the file paths are
  never printed and the exit status is a failure.
\<close>

theorem main_empty_collection_key_error:
  "fst (main broken Io_ok Io_ok Map.empty) = Uncaught KeyError \<and>
   fst (snd (main broken Io_ok Io_ok Map.empty)) =
     [Scraping_Statistics, Total_Profiles_Scraped 0] \<and>
   fst (script [] steady Io_ok Io_ok Map.empty) = Uncaught KeyError \<and>
   fst (snd (script [] steady Io_ok Io_ok Map.empty)) =
     [Scraping_Statistics, Total_Profiles_Scraped 0]"
proof -
  let ?s0 = "LinkedInScraper ''profiles.csv'' 2 5 Map.empty"
  have p0: "profiles ?s0 = []" by (simp add: LinkedInScraper_def logger_info_def)
  have "\<forall>k. synthesis_fails (broken k) ?s0" by (simp add: broken_fails)
  then have "profiles (snd (scrape_profiles broken sample_profiles ?s0)) = []"
    using scrape_profiles_all_fail[of broken ?s0 sample_profiles] p0 by simp
  then have a: "fst (main broken Io_ok Io_ok Map.empty) = Uncaught KeyError \<and>
      fst (snd (main broken Io_ok Io_ok Map.empty)) =
        [Scraping_Statistics, Total_Profiles_Scraped 0]"
    unfolding main_def by (rule script_empty_collection)
  have "profiles (snd (scrape_profiles steady [] ?s0)) = []"
    using p0 by (simp add: scrape_profiles_def Let_def logger_info_def)
  then have "fst (script [] steady Io_ok Io_ok Map.empty) = Uncaught KeyError \<and>
      fst (snd (script [] steady Io_ok Io_ok Map.empty)) =
        [Scraping_Statistics, Total_Profiles_Scraped 0]"
    by (rule script_empty_collection)
  with a show ?thesis by simp
qed



text \<open>
  C5. On an empty collection \<^verbatim>\<open>get_stats\<close> returns the statistics with
  \<open>total_profiles = 0\<close> and no other key; it raises nothing, in particular no
  \<^verbatim>\<open>ZeroDivisionError\<close>, and leaves the state as it was.
\<close>

theorem get_stats_empty:
  assumes "profiles s = []"
  shows "get_stats s =
    (Inr \<lparr>total_profiles = 0, average_connections = None, total_skills_fields = None\<rparr>, s)"
  using assms by (simp add: get_stats_def)

theorem get_stats_empty_witness:
  "profiles (LinkedInScraper ''profiles.csv'' 2 5 Map.empty) = [] \<and>
   get_stats (LinkedInScraper ''profiles.csv'' 2 5 Map.empty) =
    (Inr \<lparr>total_profiles = 0, average_connections = None, total_skills_fields = None\<rparr>,
     LinkedInScraper ''profiles.csv'' 2 5 Map.empty)"
proof -
  let ?s = "LinkedInScraper ''profiles.csv'' 2 5 Map.empty"
  have h: "profiles ?s = []" by (simp add: LinkedInScraper_def logger_info_def)
  from get_stats_empty[OF h] h show ?thesis by simp
qed

text \<open>
  C6. On an empty collection \<^verbatim>\<open>save_to_csv\<close> and \<^verbatim>\<open>save_to_json\<close> return
  \<open>None\<close>, log the warning that there are no profiles to save, and leave every export
  file as it was, whatever the disk would have done.
\<close>

theorem export_of_empty_collection:
  assumes "profiles s = []"
  shows "fst (save_to_csv io s) = None \<and>
         files (snd (save_to_csv io s)) = files s \<and>
         logger (snd (save_to_csv io s)) = logger s @ [(WARNING, No_profiles_to_save)] \<and>
         fst (save_to_json io filename s) = None \<and>
         files (snd (save_to_json io filename s)) = files s \<and>
         logger (snd (save_to_json io filename s)) = logger s @ [(WARNING, No_profiles_to_save)]"
  using assms by (simp add: save_to_csv_def save_to_json_def logger_warning_def)

theorem export_of_empty_collection_witness:
  "profiles (LinkedInScraper ''profiles.csv'' 2 5 Map.empty) = [] \<and>
   fst (save_to_csv Io_ok (LinkedInScraper ''profiles.csv'' 2 5 Map.empty)) = None \<and>
   files (snd (save_to_csv Io_ok (LinkedInScraper ''profiles.csv'' 2 5 Map.empty))) ''profiles.csv'' = None \<and>
   fst (save_to_json Io_ok ''profiles.json'' (LinkedInScraper ''profiles.csv'' 2 5 Map.empty)) = None \<and>
   files (snd (save_to_json Io_ok ''profiles.json'' (LinkedInScraper ''profiles.csv'' 2 5 Map.empty))) ''profiles.json'' = None"
proof -
  let ?s = "LinkedInScraper ''profiles.csv'' 2 5 Map.empty"
  have h: "profiles ?s = []" by (simp add: LinkedInScraper_def logger_info_def)
  have f: "files ?s = Map.empty" by (simp add: LinkedInScraper_def logger_info_def)
  from export_of_empty_collection[OF h, of Io_ok "''profiles.json''"] h f show ?thesis by simp
qed

text \<open>
  C8. \<^verbatim>\<open>get_stats\<close> changes nothing: the state after the call is the state before it,
  so a second call returns what the first returned and the collection still has its
  original value.
\<close>

theorem get_stats_pure:
  "snd (get_stats s) = s \<and>
   get_stats (snd (get_stats s)) = get_stats s \<and>
   fst (get_stats (snd (get_stats s))) = fst (get_stats s) \<and>
   profiles (snd (get_stats (snd (get_stats s)))) = profiles s"
proof -
  have "snd (get_stats s) = s"
    by (simp add: get_stats_def py_truediv_def)
  then show ?thesis by simp
qed

theorem get_stats_pure_witness:
  "snd (get_stats (LinkedInScraper ''profiles.csv'' 2 5 Map.empty\<lparr>profiles := two_records\<rparr>)) =
     LinkedInScraper ''profiles.csv'' 2 5 Map.empty\<lparr>profiles := two_records\<rparr> \<and>
   fst (get_stats (snd (get_stats (LinkedInScraper ''profiles.csv'' 2 5 Map.empty\<lparr>profiles := two_records\<rparr>)))) =
     fst (get_stats (LinkedInScraper ''profiles.csv'' 2 5 Map.empty\<lparr>profiles := two_records\<rparr>))"
  using get_stats_pure[of "LinkedInScraper ''profiles.csv'' 2 5 Map.empty\<lparr>profiles := two_records\<rparr>"]
  by simp

text \<open>
  C7. An I/O error raised while an export file is written, by \<^verbatim>\<open>open\<close> or by a
  write behind it, is caught inside the exporting method: for every collection
  \<^verbatim>\<open>save_to_csv\<close> and \<^verbatim>\<open>save_to_json\<close> return \<open>None\<close>, and for a non-empty one
  the try block did raise \<^verbatim>\<open>OSError\<close> and the handler logged it. A failed CSV export
  does not touch the JSON export that follows: it returns what it returns without the
  CSV attempt, writes the whole collection when its own I/O succeeds, and the script
  goes on to print both paths and ends successfully.
\<close>

theorem export_io_error_caught:
  assumes "io \<noteq> Io_ok"
  shows "fst (save_to_csv io s) = None \<and>
         fst (save_to_json io filename s) = None \<and>
         (profiles s \<noteq> [] \<longrightarrow>
            fst (csv_try io s) = Inl OSError \<and>
            last (logger (snd (save_to_csv io s))) = (ERROR, Error_saving_to_CSV OSError) \<and>
            fst (json_try io filename s) = Inl OSError \<and>
            last (logger (snd (save_to_json io filename s))) = (ERROR, Error_saving_to_JSON OSError)) \<and>
         fst (save_to_json io_json filename (snd (save_to_csv io s))) =
           fst (save_to_json io_json filename s) \<and>
         (profiles s \<noteq> [] \<longrightarrow>
            fst (save_to_json Io_ok filename (snd (save_to_csv io s))) = Some filename \<and>
            files (snd (save_to_json Io_ok filename (snd (save_to_csv io s)))) filename =
              Some (JSON (profiles s))) \<and>
         (profiles (snd (scrape_profiles env urls (LinkedInScraper ''profiles.csv'' 2 5 disk))) \<noteq> [] \<longrightarrow>
            fst (script urls env io io_json disk) = Exit_success \<and>
            CSV_path None \<in> set (fst (snd (script urls env io io_json disk))) \<and>
            JSON_path (if io_json = Io_ok then Some ''profiles.json'' else None)
              \<in> set (fst (snd (script urls env io io_json disk))))"
proof -
  have a: "fst (save_to_csv io s) = None \<and> fst (save_to_json io filename s) = None"
    using assms
    by (cases io) (simp_all add: save_to_csv_def save_to_json_def csv_try_def json_try_def)
  have b: "profiles s \<noteq> [] \<longrightarrow>
            fst (csv_try io s) = Inl OSError \<and>
            last (logger (snd (save_to_csv io s))) = (ERROR, Error_saving_to_CSV OSError) \<and>
            fst (json_try io filename s) = Inl OSError \<and>
            last (logger (snd (save_to_json io filename s))) = (ERROR, Error_saving_to_JSON OSError)"
    using assms
    by (cases io) (simp_all add: save_to_csv_def save_to_json_def csv_try_def json_try_def
        logger_error_def)
  have c: "fst (save_to_json io_json filename (snd (save_to_csv io s))) =
           fst (save_to_json io_json filename s)"
    using assms
    by (cases io; cases io_json)
      (simp_all add: save_to_csv_def save_to_json_def csv_try_def json_try_def
        logger_warning_def logger_error_def logger_info_def Let_def)
  have d: "profiles s \<noteq> [] \<longrightarrow>
            fst (save_to_json Io_ok filename (snd (save_to_csv io s))) = Some filename \<and>
            files (snd (save_to_json Io_ok filename (snd (save_to_csv io s)))) filename =
              Some (JSON (profiles s))"
    using assms
    by (cases io)
      (simp_all add: save_to_csv_def save_to_json_def csv_try_def json_try_def
        logger_warning_def logger_error_def logger_info_def Let_def)
  have e: "profiles (snd (scrape_profiles env urls (LinkedInScraper ''profiles.csv'' 2 5 disk))) \<noteq> [] \<longrightarrow>
            fst (script urls env io io_json disk) = Exit_success \<and>
            CSV_path None \<in> set (fst (snd (script urls env io io_json disk))) \<and>
            JSON_path (if io_json = Io_ok then Some ''profiles.json'' else None)
              \<in> set (fst (snd (script urls env io io_json disk)))"
  proof
    let ?s1 = "snd (scrape_profiles env urls (LinkedInScraper ''profiles.csv'' 2 5 disk))"
    let ?s2 = "snd (save_to_csv io ?s1)"
    let ?s3 = "snd (save_to_json io_json ''profiles.json'' ?s2)"
    assume ne: "profiles ?s1 \<noteq> []"
    have p3: "profiles ?s3 \<noteq> []" using ne by (simp add: save_keeps_profiles)
    have csv: "fst (save_to_csv io ?s1) = None"
      using assms by (cases io) (simp_all add: save_to_csv_def csv_try_def)
    have p2: "profiles ?s2 \<noteq> []" using ne by (simp add: save_keeps_profiles)
    have json: "fst (save_to_json io_json ''profiles.json'' ?s2) =
        (if io_json = Io_ok then Some ''profiles.json'' else None)"
      using p2 by (cases io_json) (simp_all add: save_to_json_def json_try_def Let_def)
    from p3 csv json show
      "fst (script urls env io io_json disk) = Exit_success \<and>
       CSV_path None \<in> set (fst (snd (script urls env io io_json disk))) \<and>
       JSON_path (if io_json = Io_ok then Some ''profiles.json'' else None)
         \<in> set (fst (snd (script urls env io io_json disk)))"
      by (simp add: script_def split_beta Let_def get_stats_def py_truediv_def)
  qed
  from a b c d e show ?thesis by blast
qed

theorem export_io_error_caught_witness:
  "Open_fails \<noteq> Io_ok \<and>
   profiles (LinkedInScraper ''profiles.csv'' 2 5 Map.empty\<lparr>profiles := two_records\<rparr>) \<noteq> [] \<and>
   fst (save_to_csv Open_fails (LinkedInScraper ''profiles.csv'' 2 5 Map.empty\<lparr>profiles := two_records\<rparr>)) = None \<and>
   fst (save_to_json Open_fails ''profiles.json''
     (LinkedInScraper ''profiles.csv'' 2 5 Map.empty\<lparr>profiles := two_records\<rparr>)) = None \<and>
   fst (csv_try Open_fails (LinkedInScraper ''profiles.csv'' 2 5 Map.empty\<lparr>profiles := two_records\<rparr>)) =
     Inl OSError \<and>
   files (snd (save_to_json Io_ok ''profiles.json''
     (snd (save_to_csv Open_fails (LinkedInScraper ''profiles.csv'' 2 5 Map.empty\<lparr>profiles := two_records\<rparr>)))))
       ''profiles.json'' = Some (JSON two_records) \<and>
   profiles (snd (scrape_profiles steady [''plain-id''] (LinkedInScraper ''profiles.csv'' 2 5 Map.empty))) \<noteq> [] \<and>
   fst (script [''plain-id''] steady Open_fails Io_ok Map.empty) = Exit_success \<and>
   JSON_path (Some ''profiles.json'') \<in> set (fst (snd (script [''plain-id''] steady Open_fails Io_ok Map.empty)))"
proof -
  let ?s = "LinkedInScraper ''profiles.csv'' 2 5 Map.empty\<lparr>profiles := two_records\<rparr>"
  have h1: "Open_fails \<noteq> Io_ok" by simp
  have h2: "profiles ?s \<noteq> []" by (simp add: two_records_def)
  have h2': "profiles ?s = two_records" by simp
  note h3 = steady_one_record
  from export_io_error_caught[OF h1, of ?s "''profiles.json''" Io_ok steady "[''plain-id'']" Map.empty]
    h2 h3
  have "fst (save_to_csv Open_fails ?s) = None \<and>
     fst (save_to_json Open_fails ''profiles.json'' ?s) = None \<and>
     fst (csv_try Open_fails ?s) = Inl OSError \<and>
     files (snd (save_to_json Io_ok ''profiles.json'' (snd (save_to_csv Open_fails ?s)))) ''profiles.json'' =
       Some (JSON (profiles ?s)) \<and>
     fst (script [''plain-id''] steady Open_fails Io_ok Map.empty) = Exit_success \<and>
     JSON_path (Some ''profiles.json'') \<in> set (fst (snd (script [''plain-id''] steady Open_fails Io_ok Map.empty)))"
    by simp
  with h1 h2 h2' h3 show ?thesis by simp
qed

text \<open>
  C9. The collection only grows. One synthesis and a whole call of
  \<^verbatim>\<open>scrape_profiles\<close> keep the records already there as a prefix; the two exports and
  \<^verbatim>\<open>get_stats\<close> leave the collection as it is; \<^verbatim>\<open>scrape_profiles\<close> returns the
  whole collection. So a second call returns what the first call returned, followed by
  the records of the second batch: one per identifier whose synthesis succeeds, in
  order, and one per identifier when none fails. The exports and the statistics read
  the whole accumulated collection.
\<close>

theorem profiles_append_only:
  "prefix (profiles s) (profiles (snd (simulate_profile_data env url s))) \<and>
   prefix (profiles s) (profiles (snd (scrape_profiles env urls s))) \<and>
   profiles (snd (save_to_csv io s)) = profiles s \<and>
   profiles (snd (save_to_json io filename s)) = profiles s \<and>
   profiles (snd (get_stats s)) = profiles s \<and>
   fst (scrape_profiles env urls s) = profiles (snd (scrape_profiles env urls s)) \<and>
   (\<exists>new. fst (scrape_profiles env urls2 (snd (scrape_profiles env urls1 s))) =
            fst (scrape_profiles env urls1 s) @ new \<and>
          subseq (map profile_url new) urls2 \<and>
          ((\<forall>i < length urls2. \<not> synthesis_fails (env (calls s + length urls1 + i)) s) \<longrightarrow>
             map profile_url new = urls2)) \<and>
   (profiles s \<noteq> [] \<longrightarrow>
      files (snd (save_to_csv Io_ok s)) (output_csv s) =
        Some (CSV fieldnames (map row_of (profiles s))) \<and>
      files (snd (save_to_json Io_ok filename s)) filename = Some (JSON (profiles s)) \<and>
      (\<exists>st. fst (get_stats s) = Inr st \<and> total_profiles st = length (profiles s)))"
proof -
  have a: "prefix (profiles s) (profiles (snd (simulate_profile_data env url s)))"
    using simulate_fails[of env s url] simulate_succeeds[of env s url]
    by (cases "synthesis_fails (env (calls s)) s") auto
  have b: "prefix (profiles s) (profiles (snd (scrape_profiles env urls s)))"
    using scrape_profiles_appends[of env urls s] by auto
  have c: "fst (scrape_profiles env urls s) = profiles (snd (scrape_profiles env urls s))"
    using scrape_profiles_appends[of env urls s] by auto
  let ?s1 = "snd (scrape_profiles env urls1 s)"
  let ?ks = "[calls ?s1 ..< calls ?s1 + length urls2]"
  have sf: "\<And>d. synthesis_fails d ?s1 = synthesis_fails d s"
    by (rule synthesis_fails_cong) (simp_all add: scrape_profiles_fields)
  from scrape_profiles_appends[of env urls2 ?s1] obtain new where
    n1: "fst (scrape_profiles env urls2 ?s1) = profiles ?s1 @ new" and
    n2: "map profile_url new =
       map fst (filter (\<lambda>(url, k). \<not> synthesis_fails (env k) s) (zip urls2 ?ks))"
    unfolding sf by blast
  have p1: "profiles ?s1 = fst (scrape_profiles env urls1 s)"
    using scrape_profiles_appends[of env urls1 s] by auto
  have sub: "subseq (map profile_url new) urls2"
    unfolding n2 by (rule map_fst_filter_zip_subseq)
  have allok: "(\<forall>i < length urls2. \<not> synthesis_fails (env (calls s + length urls1 + i)) s) \<longrightarrow>
             map profile_url new = urls2"
  proof
    assume ok: "\<forall>i < length urls2. \<not> synthesis_fails (env (calls s + length urls1 + i)) s"
    have "\<forall>k \<in> set ?ks. \<not> synthesis_fails (env k) s"
    proof
      fix k assume "k \<in> set ?ks"
      then have "k - (calls s + length urls1) < length urls2"
        and "k = calls s + length urls1 + (k - (calls s + length urls1))"
        by (auto simp: scrape_profiles_fields)
      with ok show "\<not> synthesis_fails (env k) s" by metis
    qed
    then have "map fst (filter (\<lambda>(url, k). \<not> synthesis_fails (env k) s) (zip urls2 ?ks)) = urls2"
      by (intro filter_zip_all) simp_all
    with n2 show "map profile_url new = urls2" by simp
  qed
  from n1 p1 sub allok have d:
    "\<exists>new. fst (scrape_profiles env urls2 ?s1) = fst (scrape_profiles env urls1 s) @ new \<and>
          subseq (map profile_url new) urls2 \<and>
          ((\<forall>i < length urls2. \<not> synthesis_fails (env (calls s + length urls1 + i)) s) \<longrightarrow>
             map profile_url new = urls2)"
    by auto
  have e: "profiles s \<noteq> [] \<longrightarrow>
      files (snd (save_to_csv Io_ok s)) (output_csv s) =
        Some (CSV fieldnames (map row_of (profiles s))) \<and>
      files (snd (save_to_json Io_ok filename s)) filename = Some (JSON (profiles s)) \<and>
      (\<exists>st. fst (get_stats s) = Inr st \<and> total_profiles st = length (profiles s))"
    by (simp add: save_to_csv_def save_to_json_def csv_try_def json_try_def
        logger_info_def Let_def get_stats_def py_truediv_def)
  from a b c d e show ?thesis
    by (simp add: save_keeps_profiles get_stats_state)
qed

theorem profiles_append_only_witness:
  "\<not> synthesis_fails
      (steady (calls (LinkedInScraper ''profiles.csv'' 2 5 Map.empty) +
         length [''linkedin.com/in/sample-profile-1''] + 0))
      (LinkedInScraper ''profiles.csv'' 2 5 Map.empty) \<and>
   (\<exists>new. fst (scrape_profiles steady [''plain-id'']
              (snd (scrape_profiles steady [''linkedin.com/in/sample-profile-1'']
                 (LinkedInScraper ''profiles.csv'' 2 5 Map.empty)))) =
            fst (scrape_profiles steady [''linkedin.com/in/sample-profile-1'']
                 (LinkedInScraper ''profiles.csv'' 2 5 Map.empty)) @ new \<and>
          map profile_url new = [''plain-id'']) \<and>
   profiles (LinkedInScraper ''profiles.csv'' 2 5 Map.empty\<lparr>profiles := two_records\<rparr>) \<noteq> [] \<and>
   files (snd (save_to_json Io_ok ''profiles.json''
       (LinkedInScraper ''profiles.csv'' 2 5 Map.empty\<lparr>profiles := two_records\<rparr>))) ''profiles.json'' =
     Some (JSON two_records) \<and>
   files (snd (save_to_csv Io_ok
       (LinkedInScraper ''profiles.csv'' 2 5 Map.empty\<lparr>profiles := two_records\<rparr>))) ''profiles.csv'' =
     Some (CSV fieldnames (map row_of two_records)) \<and>
   (\<exists>st. fst (get_stats (LinkedInScraper ''profiles.csv'' 2 5 Map.empty\<lparr>profiles := two_records\<rparr>)) = Inr st \<and>
      total_profiles st = 2)"
proof -
  let ?base = "LinkedInScraper ''profiles.csv'' 2 5 Map.empty"
  let ?full = "?base\<lparr>profiles := two_records\<rparr>"
  let ?u1 = "[''linkedin.com/in/sample-profile-1'']"
  let ?u2 = "[''plain-id'']"
  have h0: "\<not> synthesis_fails (steady (calls ?base + length ?u1 + 0)) ?base"
    by (simp add: steady_succeeds LinkedInScraper_def logger_info_def)
  have h1: "\<forall>i < length ?u2. \<not> synthesis_fails (steady (calls ?base + length ?u1 + i)) ?base"
    by (simp add: steady_succeeds LinkedInScraper_def logger_info_def)
  have h2: "profiles ?full \<noteq> []" by (simp add: two_records_def)
  have o: "output_csv ?full = ''profiles.csv''" by (simp add: LinkedInScraper_def logger_info_def)
  have p: "profiles ?full = two_records" by simp
  have l: "length two_records = 2" by (simp add: two_records_def)
  note g = profiles_append_only[of ?base steady "''x''" "[]" Io_ok "''profiles.json''" ?u2 ?u1,
      THEN conjunct2, THEN conjunct2, THEN conjunct2, THEN conjunct2, THEN conjunct2,
      THEN conjunct2, THEN conjunct1]
  then obtain new where
    n1: "fst (scrape_profiles steady ?u2 (snd (scrape_profiles steady ?u1 ?base))) =
            fst (scrape_profiles steady ?u1 ?base) @ new"
    and n2: "(\<forall>i < length ?u2. \<not> synthesis_fails (steady (calls ?base + length ?u1 + i)) ?base) \<longrightarrow>
             map profile_url new = ?u2"
    by (elim exE conjE)
  from n2 h1 have n3: "map profile_url new = ?u2" by (rule mp)
  from n1 n3 have r1: "\<exists>new. fst (scrape_profiles steady ?u2 (snd (scrape_profiles steady ?u1 ?base))) =
            fst (scrape_profiles steady ?u1 ?base) @ new \<and> map profile_url new = ?u2"
    by (intro exI conjI)
  note h = profiles_append_only[of ?full steady "''x''" "[]" Io_ok "''profiles.json''" ?u2 ?u1,
      THEN conjunct2, THEN conjunct2, THEN conjunct2, THEN conjunct2, THEN conjunct2,
      THEN conjunct2, THEN conjunct2, THEN mp, OF h2]
  have r2: "files (snd (save_to_csv Io_ok ?full)) ''profiles.csv'' =
        Some (CSV fieldnames (map row_of two_records))"
    using h[THEN conjunct1] unfolding o p .
  have r3: "files (snd (save_to_json Io_ok ''profiles.json'' ?full)) ''profiles.json'' = Some (JSON two_records)"
    using h[THEN conjunct2, THEN conjunct1] unfolding p .
  have r4: "\<exists>st. fst (get_stats ?full) = Inr st \<and> total_profiles st = 2"
    using h[THEN conjunct2, THEN conjunct2] unfolding p l .
  from h0 r1 h2 r3 r2 r4 show ?thesis by (intro conjI)
qed

end
